theory Spec2Isabelle
  imports Main
begin

section \<open>Python values used by the adapter\<close>

text \<open>
  A Python \<open>str\<close> is modelled as a HOL \<open>string\<close>, one \<open>char\<close> per code point below 256
  (so the accented letters of the source's messages are single characters).
  \<open>isspace\<close> is Python's \<open>str.isspace\<close> on that range; \<open>strip\<close> is \<open>str.strip()\<close>
  without arguments, \<open>startswith\<close> is \<open>str.startswith\<close> with one prefix.
\<close>

definition isspace :: "char \<Rightarrow> bool" where
  "isspace c =
     (let n = (of_char c :: nat)
      in (9 \<le> n \<and> n \<le> 13) \<or> (28 \<le> n \<and> n \<le> 32) \<or> n = 133 \<or> n = 160)"

definition strip :: "string \<Rightarrow> string" where
  "strip s = rev (dropWhile isspace (rev (dropWhile isspace s)))"

definition startswith :: "string \<Rightarrow> string \<Rightarrow> bool" where
  "startswith s pre = (take (length pre) s = pre)"

fun digits :: "nat \<Rightarrow> string" where
  "digits n =
     (if n < 10 then [char_of (48 + n)]
      else digits (n div 10) @ [char_of (48 + n mod 10)])"

text \<open>\<open>py_str\<close> is what an f-string writes for an \<open>int\<close>.\<close>

definition py_str :: "int \<Rightarrow> string" where
  "py_str i = (if i < 0 then CHR ''-'' # digits (nat (- i)) else digits (nat i))"

text \<open>
  The values that \<open>request.get_json()\<close> yields and \<open>jsonify\<close> accepts. A dict is an
  association list in the order of the literal that builds it. Numbers are integers;
  floating-point numbers are left out.
\<close>

datatype json =
    JNull
  | JBool bool
  | JInt int
  | JStr string
  | JArr "json list"
  | JObj "(string \<times> json) list"

text \<open>Python truthiness, as \<open>or\<close>, \<open>not\<close> and \<open>if\<close> test it.\<close>

fun truthy :: "json \<Rightarrow> bool" where
  "truthy JNull = False"
| "truthy (JBool b) = b"
| "truthy (JInt n) = (n \<noteq> 0)"
| "truthy (JStr s) = (s \<noteq> [])"
| "truthy (JArr xs) = (xs \<noteq> [])"
| "truthy (JObj kvs) = (kvs \<noteq> [])"

fun type_name :: "json \<Rightarrow> string" where
  "type_name JNull = ''NoneType''"
| "type_name (JBool b) = ''bool''"
| "type_name (JInt n) = ''int''"
| "type_name (JStr s) = ''str''"
| "type_name (JArr xs) = ''list''"
| "type_name (JObj kvs) = ''dict''"

text \<open>
  An exception is an instance of Python's class \<open>Exception\<close>, carrying the text that
  \<open>str(e)\<close> returns. Exits by \<open>SystemExit\<close> or \<open>KeyboardInterrupt\<close>, which
  \<open>except Exception\<close> does not catch, are outside the model.
\<close>

datatype exc = Exception string

fun str :: "exc \<Rightarrow> string" where
  "str (Exception m) = m"

definition AttributeError :: "json \<Rightarrow> string \<Rightarrow> exc" where
  "AttributeError v attr =
     Exception ([CHR 0x27] @ type_name v @ [CHR 0x27] @ '' object has no attribute ''
                @ [CHR 0x27] @ attr @ [CHR 0x27])"

text \<open>\<open>d.get(key, default)\<close>: only a dict has the method.\<close>

definition dict_get :: "json \<Rightarrow> string \<Rightarrow> json \<Rightarrow> exc + json" where
  "dict_get d key dflt =
     (case d of
        JObj kvs \<Rightarrow> Inr (case map_of kvs key of Some v \<Rightarrow> v | None \<Rightarrow> dflt)
      | _ \<Rightarrow> Inl (AttributeError d ''get''))"

text \<open>\<open>(params.get(key) or "").strip()\<close>, the expression that reads every text parameter.\<close>

definition get_stripped :: "json \<Rightarrow> string \<Rightarrow> exc + string" where
  "get_stripped params key =
     (case dict_get params key JNull of
        Inl e \<Rightarrow> Inl e
      | Inr v \<Rightarrow>
          (case (if truthy v then v else JStr []) of
             JStr s \<Rightarrow> Inr (strip s)
           | w \<Rightarrow> Inl (AttributeError w ''strip'')))"

section \<open>The analysis engine as seen through the hooks\<close>

text \<open>
  The script \<open>arquivo-base-fixed.py\<close> is not part of the adapter. One of its operations
  is modelled by what it does at the intercepted surface: it prints, it calls
  \<open>input(prompt)\<close> and goes on with the answer, it calls
  \<open>save_to_csv_simple(data, filename)\<close> (or \<open>save_to_csv_simple_pruning\<close>, patched
  to the same hook) and goes on with the returned flag, and in the end it returns,
  raises, or never returns (\<open>Hang\<close>).
\<close>

text \<open>
  Modelled from the spec: the type of an export call, which the script fixes and the
  adapter does not: \<open>filename\<close> is a string and \<open>data\<close> a sequence of records.
\<close>

type_synonym row = "(string \<times> json) list"

datatype engine =
    Return
  | Raise exc
  | Hang
  | Print string engine
  | Input string "string \<Rightarrow> engine"
  | Save "row list" string "bool \<Rightarrow> engine"

text \<open>The three locals of \<open>run_analysis\<close> that the hooks close over.\<close>

record hooks =
  input_queue :: "string list"
  stdout_capture :: string
  exports :: "json list"

definition mock_input :: "string \<Rightarrow> hooks \<Rightarrow> string \<times> hooks" where
  "mock_input prompt h =
     (case input_queue h of
        a # rest \<Rightarrow> (strip a, h\<lparr>input_queue := rest\<rparr>)
      | [] \<Rightarrow> ([], h))"

definition mock_save_to_csv_simple :: "row list \<Rightarrow> string \<Rightarrow> hooks \<Rightarrow> bool \<times> hooks" where
  "mock_save_to_csv_simple data filename h =
     (True, h\<lparr>exports := exports h @
                 [JObj [(''filename'', JStr filename), (''data'', JArr (map JObj data))]]\<rparr>)"

datatype 'a outcome = Returns 'a | Raises exc | Hangs

text \<open>Running an operation while the hooks are installed.\<close>

primrec exec :: "engine \<Rightarrow> hooks \<Rightarrow> unit outcome \<times> hooks" where
  "exec Return h = (Returns (), h)"
| "exec (Raise e) h = (Raises e, h)"
| "exec Hang h = (Hangs, h)"
| "exec (Print s k) h = exec k (h\<lparr>stdout_capture := stdout_capture h @ s\<rparr>)"
| "exec (Input prompt k) h =
     (case mock_input prompt h of (a, h') \<Rightarrow> exec (k a) h')"
| "exec (Save data filename k) h =
     (case mock_save_to_csv_simple data filename h of (r, h') \<Rightarrow> exec (k r) h')"


section \<open>Process-wide state\<close>

text \<open>
  \<open>builtins.input\<close>, \<open>sys.stdout\<close> and the working directory are process-wide. Each is
  modelled by what is installed there. \<open>probe\<close> is an observation log, not program
  state: every load of the script, every assignment to one of the two globals, every
  call of \<open>os.chdir\<close> (with whether it succeeded) and every call of an engine
  operation appends one event, so that "how often" and "whether at all" can be stated.
\<close>

datatype input_source = ConsoleInput | QueueInput

datatype output_sink = ConsoleOutput | CaptureBuffer

datatype event =
    LoadScript
  | SetInput input_source
  | SetStdout output_sink
  | Chdir string bool
  | Invoke int

record process =
  builtins_input :: input_source
  sys_stdout :: output_sink
  cwd :: string
  probe :: "event list"

text \<open>The eight entry points that \<open>run_analysis\<close> calls on the loaded module.\<close>

record script_module =
  run_site_analysis :: engine
  run_niche_analysis :: engine
  run_url_analysis :: engine
  run_keyword_variations :: engine
  run_theme_analysis :: engine
  run_content_pruning_analysis :: engine
  show_learning_dashboard :: engine
  export_learning_data :: engine

text \<open>
  What the adapter finds around it: \<open>script\<close> is the outcome of
  \<open>load_script_module()\<close> followed by \<open>spec.loader.exec_module\<close> (the module, or the
  exception raised while loading), \<open>APP_DIR\<close> the directory of the script, and
  \<open>can_chdir d\<close> tells whether \<open>os.chdir(d)\<close> succeeds rather than raising \<open>OSError\<close>,
  and \<open>getcwd_raises\<close> is the exception that \<open>os.getcwd()\<close> raises, \<open>None\<close> when it
  returns the working directory (it fails when that directory has been removed).
\<close>

record host =
  script :: "exc + script_module"
  APP_DIR :: string
  can_chdir :: "string \<Rightarrow> bool"
  getcwd_raises :: "exc option"

definition set_input :: "input_source \<Rightarrow> process \<Rightarrow> process" where
  "set_input f p = p\<lparr>builtins_input := f, probe := probe p @ [SetInput f]\<rparr>"

definition set_stdout :: "output_sink \<Rightarrow> process \<Rightarrow> process" where
  "set_stdout f p = p\<lparr>sys_stdout := f, probe := probe p @ [SetStdout f]\<rparr>"

text \<open>\<open>try: os.chdir(d)  except OSError: pass\<close>\<close>

definition chdir_pass :: "host \<Rightarrow> string \<Rightarrow> process \<Rightarrow> process" where
  "chdir_pass hst d p =
     (if can_chdir hst d then p\<lparr>cwd := d, probe := probe p @ [Chdir d True]\<rparr>
      else p\<lparr>probe := probe p @ [Chdir d False]\<rparr>)"

text \<open>The \<open>finally\<close> block of \<open>run_analysis\<close>.\<close>

definition restore :: "host \<Rightarrow> input_source \<Rightarrow> output_sink \<Rightarrow> string \<Rightarrow> process \<Rightarrow> process" where
  "restore hst original_input old_stdout old_cwd p =
     chdir_pass hst old_cwd (set_stdout old_stdout (set_input original_input p))"

text \<open>The \<open>if\<close>/\<open>elif\<close> chain on \<open>option\<close>; \<open>None\<close> is its \<open>else\<close> branch.\<close>

definition dispatch :: "script_module \<Rightarrow> int \<Rightarrow> engine option" where
  "dispatch m opt =
     (if opt = 1 then Some (run_site_analysis m)
      else if opt = 2 then Some (run_niche_analysis m)
      else if opt = 3 then Some (run_url_analysis m)
      else if opt = 4 then Some (run_keyword_variations m)
      else if opt = 5 then Some (run_theme_analysis m)
      else if opt = 6 then Some (run_content_pruning_analysis m)
      else if opt = 7 then Some (show_learning_dashboard m)
      else if opt = 8 then Some (export_learning_data m)
      else None)"

definition invalid_option_prefix :: string where
  "invalid_option_prefix = ''Op'' @ [CHR 0xE7, CHR 0xE3] @ ''o inv'' @ [CHR 0xE1] @ ''lida: ''"

section \<open>run_analysis\<close>

text \<open>
  The result is the triple \<open>(stdout_text, exports_list, error_message)\<close>, \<open>None\<close> for
  Python's \<open>None\<close>. \<open>Raises\<close> is an exception leaving \<open>run_analysis\<close>: the script failed
  to load (line 63, before anything is redirected), or \<open>os.getcwd()\<close> failed (line 73,
  after the two globals are redirected and before the \<open>try\<close> whose \<open>finally\<close> would
  restore them). \<open>Hangs\<close> is an operation that never returns: then the \<open>finally\<close> block
  is never reached.
\<close>

definition run_analysis ::
  "host \<Rightarrow> int \<Rightarrow> string list \<Rightarrow> nat \<Rightarrow> process
     \<Rightarrow> (string \<times> json list \<times> string option) outcome \<times> process" where
  "run_analysis hst opt input_responses timeout_seconds p =
     (let hooks0 = \<lparr>input_queue = input_responses, stdout_capture = [], exports = []\<rparr>;
          p0 = p\<lparr>probe := probe p @ [LoadScript]\<rparr>
      in case script hst of
           Inl e \<Rightarrow> (Raises e, p0)
         | Inr script_module \<Rightarrow>
             (let original_input = builtins_input p0;
                  p1 = set_input QueueInput p0;
                  old_stdout = sys_stdout p1;
                  p2 = set_stdout CaptureBuffer p1
              in case getcwd_raises hst of
                   Some e \<Rightarrow> (Raises e, p2)
                 | None \<Rightarrow>
                     (let old_cwd = cwd p2;
                          p3 = chdir_pass hst (APP_DIR hst) p2
                      in case dispatch script_module opt of
                           None \<Rightarrow>
                             (Returns ([], [], Some (invalid_option_prefix @ py_str opt)),
                              restore hst original_input old_stdout old_cwd p3)
                         | Some operation \<Rightarrow>
                             (let p4 = p3\<lparr>probe := probe p3 @ [Invoke opt]\<rparr>
                              in case exec operation hooks0 of
                                   (Returns u, h) \<Rightarrow>
                                     (Returns (stdout_capture h, exports h, None),
                                      restore hst original_input old_stdout old_cwd p4)
                                 | (Raises e, h) \<Rightarrow>
                                     (Returns (stdout_capture h, exports h, Some (str e)),
                                      restore hst original_input old_stdout old_cwd p4)
                                 | (Hangs, h) \<Rightarrow> (Hangs, p4)))))"

section \<open>The analyze endpoint\<close>

text \<open>
  Lines 135 to 179 of \<open>analyze\<close> end in one of three ways: the list \<open>input_responses\<close> is
  built, the function returns a response at once, or an exception is raised (a parameter
  of the wrong type) and the outer \<open>except\<close> takes over.
\<close>

datatype prepared =
    Queue "string list"
  | Reject "json \<times> nat"
  | Crash exc

definition jsonify :: "(string \<times> json) list \<Rightarrow> json" where
  "jsonify d = JObj d"

definition obrigatorio :: string where
  "obrigatorio = '' '' @ [CHR 0xE9] @ '' obrigat'' @ [CHR 0xF3] @ ''rio''"

definition domain_url_e_theme :: string where
  "domain_url_e_theme =
     ''domain_url e theme s'' @ [CHR 0xE3] @ ''o obrigat'' @ [CHR 0xF3] @ ''rios''"

text \<open>\<open>if not url.startswith(("http://", "https://")): url = "https://" + url\<close>\<close>

definition with_scheme :: "string \<Rightarrow> string" where
  "with_scheme url =
     (if \<not> (startswith url ''http://'' \<or> startswith url ''https://'')
      then ''https://'' @ url else url)"

definition analyze_input_responses :: "int \<Rightarrow> json \<Rightarrow> prepared" where
  "analyze_input_responses opt params =
     (if opt = 1 then
        (case get_stripped params ''domain_url'' of
           Inl e \<Rightarrow> Crash e
         | Inr domain_url \<Rightarrow>
             if domain_url = [] then
               Reject (jsonify [(''error'', JStr (''domain_url'' @ obrigatorio))], 400)
             else
               (case dict_get params ''include_subdomains'' (JBool False) of
                  Inl e \<Rightarrow> Crash e
                | Inr include_sub \<Rightarrow>
                    Queue [with_scheme domain_url, if truthy include_sub then ''s'' else ''n'']))
      else if opt = 2 then
        (case get_stripped params ''niche'' of
           Inl e \<Rightarrow> Crash e
         | Inr niche \<Rightarrow>
             if niche = [] then
               Reject (jsonify [(''error'', JStr (''niche'' @ obrigatorio))], 400)
             else Queue [niche])
      else if opt = 3 then
        (case get_stripped params ''url'' of
           Inl e \<Rightarrow> Crash e
         | Inr url \<Rightarrow>
             if url = [] then
               Reject (jsonify [(''error'', JStr (''url'' @ obrigatorio))], 400)
             else Queue [with_scheme url])
      else if opt = 4 then
        (case get_stripped params ''keyword'' of
           Inl e \<Rightarrow> Crash e
         | Inr keyword \<Rightarrow>
             if keyword = [] then
               Reject (jsonify [(''error'', JStr (''keyword'' @ obrigatorio))], 400)
             else Queue [keyword])
      else if opt = 5 then
        (case get_stripped params ''domain_url'' of
           Inl e \<Rightarrow> Crash e
         | Inr domain_url \<Rightarrow>
             (case get_stripped params ''theme'' of
                Inl e \<Rightarrow> Crash e
              | Inr theme \<Rightarrow>
                  if domain_url = [] \<or> theme = [] then
                    Reject (jsonify [(''error'', JStr domain_url_e_theme)], 400)
                  else Queue [with_scheme domain_url, theme]))
      else if opt = 6 then
        (case get_stripped params ''domain_url'' of
           Inl e \<Rightarrow> Crash e
         | Inr domain_url \<Rightarrow>
             if domain_url = [] then
               Reject (jsonify [(''error'', JStr (''domain_url'' @ obrigatorio))], 400)
             else
               (case dict_get params ''include_subdomains'' (JBool False) of
                  Inl e \<Rightarrow> Crash e
                | Inr include_sub \<Rightarrow>
                    Queue [with_scheme domain_url, if truthy include_sub then ''s'' else ''n'']))
      else if opt = 7 \<or> opt = 8 then Queue []
      else Reject (jsonify [(''error'', JStr ''option deve ser entre 1 e 8'')], 400))"

text \<open>\<open>if err:\<close> on the third element of the triple.\<close>

definition err_truthy :: "string option \<Rightarrow> bool" where
  "err_truthy err = (case err of None \<Rightarrow> False | Some m \<Rightarrow> m \<noteq> [])"

text \<open>Lines 181 to 193 of \<open>analyze\<close>: the response built from what \<open>run_analysis\<close> did.\<close>

definition analyze_response ::
  "(string \<times> json list \<times> string option) outcome \<times> process
     \<Rightarrow> (json \<times> nat) outcome \<times> process" where
  "analyze_response r =
     (case r of
        (Raises e, p') \<Rightarrow> (Returns (jsonify [(''error'', JStr (str e))], 500), p')
      | (Hangs, p') \<Rightarrow> (Hangs, p')
      | (Returns (output_text, exports_list, err), p') \<Rightarrow>
          if err_truthy err then
            (Returns (jsonify [(''output'', JStr output_text),
                               (''exports'', JArr []),
                               (''error'', JStr (the err))], 200), p')
          else
            (Returns (jsonify [(''output'', JStr output_text),
                               (''exports'', JArr exports_list),
                               (''error'', JNull)], 200), p'))"

text \<open>
  \<open>analyze\<close> from line 135 on. Its argument \<open>request\<close> is the outcome of lines 131 to
  133 (Flask's \<open>get_json\<close> and the builtin \<open>int\<close>): the exception they raised, or
  \<open>option\<close> and \<open>params\<close>. The result is the JSON body with the HTTP status; an
  exception raised anywhere inside is caught by the outer \<open>except\<close> and answered with
  status 500.
\<close>

definition analyze ::
  "host \<Rightarrow> exc + int \<times> json \<Rightarrow> process \<Rightarrow> (json \<times> nat) outcome \<times> process" where
  "analyze hst request p =
     (case request of
        Inl e \<Rightarrow> (Returns (jsonify [(''error'', JStr (str e))], 500), p)
      | Inr (opt, params) \<Rightarrow>
          (case analyze_input_responses opt params of
             Crash e \<Rightarrow> (Returns (jsonify [(''error'', JStr (str e))], 500), p)
           | Reject response \<Rightarrow> (Returns response, p)
           | Queue input_responses \<Rightarrow>
               analyze_response (run_analysis hst opt input_responses 600 p)))"

section \<open>The vocabulary of the specification\<close>

text \<open>The parameters that the table of external interfaces requires for a selector.\<close>

definition required_params :: "int \<Rightarrow> string list" where
  "required_params selector =
     (if selector = 1 then [''domain_url'']
      else if selector = 2 then [''niche'']
      else if selector = 3 then [''url'']
      else if selector = 4 then [''keyword'']
      else if selector = 5 then [''domain_url'', ''theme'']
      else if selector = 6 then [''domain_url'']
      else [])"



text \<open>A parameter is supplied as text that is not all whitespace.\<close>

definition supplied :: "(string \<times> json) list \<Rightarrow> string \<Rightarrow> bool" where
  "supplied kvs key =
     (case map_of kvs key of
        Some (JStr s) \<Rightarrow> strip s \<noteq> []
      | _ \<Rightarrow> False)"

text \<open>The text of a parameter stripped of surrounding whitespace, and the value of the
  flag \<open>include_subdomains\<close> (default false).\<close>

definition parameter :: "(string \<times> json) list \<Rightarrow> string \<Rightarrow> string" where
  "parameter kvs key = (case map_of kvs key of Some (JStr s) \<Rightarrow> strip s | _ \<Rightarrow> [])"

definition flag :: "(string \<times> json) list \<Rightarrow> string \<Rightarrow> bool" where
  "flag kvs key = (case map_of kvs key of None \<Rightarrow> False | Some v \<Rightarrow> truthy v)"

text \<open>The text of a parameter as the request supplies it, untouched.\<close>

definition supplied_text :: "(string \<times> json) list \<Rightarrow> string \<Rightarrow> string" where
  "supplied_text kvs key = (case map_of kvs key of Some (JStr s) \<Rightarrow> s | _ \<Rightarrow> [])"

text \<open>
  "A scheme is given", in the usual sense of a URL: the text begins with a scheme name
  (a letter, then letters, digits, \<open>+\<close>, \<open>-\<close> or \<open>.\<close>) followed by \<open>://\<close>, whatever the
  scheme and whatever its case.
\<close>

definition isalpha_ascii :: "char \<Rightarrow> bool" where
  "isalpha_ascii c =
     (let n = (of_char c :: nat) in (65 \<le> n \<and> n \<le> 90) \<or> (97 \<le> n \<and> n \<le> 122))"

definition scheme_char :: "char \<Rightarrow> bool" where
  "scheme_char c =
     (let n = (of_char c :: nat)
      in isalpha_ascii c \<or> (48 \<le> n \<and> n \<le> 57) \<or> n = 43 \<or> n = 45 \<or> n = 46)"

definition scheme_given :: "string \<Rightarrow> bool" where
  "scheme_given u =
     (case u of
        [] \<Rightarrow> False
      | c # cs \<Rightarrow> isalpha_ascii c \<and> startswith (dropWhile scheme_char cs) ''://'')"

text \<open>"prefixed with https:// if no scheme given"\<close>

definition scheme_defaulted :: "string \<Rightarrow> string" where
  "scheme_defaulted u = (if scheme_given u then u else ''https://'' @ u)"

text \<open>A text whose scheme, if it gives one, is \<open>http://\<close> or \<open>https://\<close> in lower case.\<close>

definition http_or_no_scheme :: "string \<Rightarrow> bool" where
  "http_or_no_scheme u =
     (\<not> scheme_given u \<or> startswith u ''http://'' \<or> startswith u ''https://'')"

text \<open>
  The column "derived answer queue" of the table, row by row, written from the
  specification. \<open>defaulted\<close> is the reading given to "prefixed with https:// if no
  scheme given": \<open>scheme_defaulted\<close> is the reading of the words.
\<close>

definition table_queue ::
  "int \<Rightarrow> (string \<Rightarrow> string) \<Rightarrow> (string \<Rightarrow> string) \<Rightarrow> bool \<Rightarrow> string list" where
  "table_queue selector defaulted param include_subdomains =
     (if selector = 1 then
        [defaulted (param ''domain_url''), if include_subdomains then ''s'' else ''n'']
      else if selector = 2 then [param ''niche'']
      else if selector = 3 then [defaulted (param ''url'')]
      else if selector = 4 then [param ''keyword'']
      else if selector = 5 then [defaulted (param ''domain_url''), param ''theme'']
      else if selector = 6 then
        [defaulted (param ''domain_url''), if include_subdomains then ''s'' else ''n'']
      else [])"

text \<open>An export record: a dict of exactly two entries, the first under the key \<open>name_key\<close>
  holding a string, the second under \<open>payload_key\<close> holding a sequence of records.\<close>

fun is_record :: "json \<Rightarrow> bool" where
  "is_record (JObj kvs) = True"
| "is_record v = False"

definition export_record :: "string \<Rightarrow> string \<Rightarrow> json \<Rightarrow> bool" where
  "export_record name_key payload_key v =
     (case v of
        JObj [(k1, JStr filename), (k2, JArr data)] \<Rightarrow>
          k1 = name_key \<and> k2 = payload_key \<and> list_all is_record data
      | _ \<Rightarrow> False)"

text \<open>The entry of a response body under a key.\<close>

definition field :: "json \<Rightarrow> string \<Rightarrow> json option" where
  "field body key = (case body of JObj kvs \<Rightarrow> map_of kvs key | _ \<Rightarrow> None)"

section \<open>A small installation to run the adapter on\<close>

text \<open>A script whose eight operations all behave as \<open>operation\<close>, in a directory that
  can be entered, and a process at its console.\<close>

definition script_of :: "engine \<Rightarrow> script_module" where
  "script_of operation =
     \<lparr>run_site_analysis = operation, run_niche_analysis = operation,
      run_url_analysis = operation, run_keyword_variations = operation,
      run_theme_analysis = operation, run_content_pruning_analysis = operation,
      show_learning_dashboard = operation, export_learning_data = operation\<rparr>"

definition host_of :: "engine \<Rightarrow> host" where
  "host_of operation =
     \<lparr>script = Inr (script_of operation), APP_DIR = ''/srv/app'', can_chdir = (\<lambda>d. True),
      getcwd_raises = None\<rparr>"

definition console :: process where
  "console =
     \<lparr>builtins_input = ConsoleInput, sys_stdout = ConsoleOutput, cwd = ''/srv/api'',
      probe = []\<rparr>"

text \<open>An operation that prints, exports one record and then fails.\<close>

definition failing_midway :: engine where
  "failing_midway =
     Print ''3 keywords'' (Save [[(''keyword'', JStr ''seo'')]] ''site.csv''
       (\<lambda>saved. Raise (Exception ''timeout contacting server'')))"

text \<open>An operation that prints and then fails with an exception of empty text, as a
  failed \<open>assert\<close> without message does.\<close>

definition failing_silently :: engine where
  "failing_silently = Print ''3 keywords'' (Raise (Exception []))"

text \<open>A host on which the directory the process started in can no longer be entered.\<close>

definition host_locked_out :: host where
  "host_locked_out =
     \<lparr>script = Inr (script_of Return), APP_DIR = ''/srv/app'',
      can_chdir = (\<lambda>d. d = ''/srv/app''), getcwd_raises = None\<rparr>"

text \<open>A host on which the script fails while it is loaded.\<close>

definition host_unloadable :: host where
  "host_unloadable =
     \<lparr>script = Inl (Exception ''No module named requests''), APP_DIR = ''/srv/app'',
      can_chdir = (\<lambda>d. True), getcwd_raises = None\<rparr>"

text \<open>A host on which the directory the process started in has been removed.\<close>

definition host_without_cwd :: host where
  "host_without_cwd =
     \<lparr>script = Inr (script_of Return), APP_DIR = ''/srv/app'', can_chdir = (\<lambda>d. True),
      getcwd_raises = Some (Exception ''[Errno 2] No such file or directory'')\<rparr>"

text \<open>An operation that exports one record and returns.\<close>

definition exporting :: engine where
  "exporting = Save [[(''keyword'', JStr ''seo'')]] ''site.csv'' (\<lambda>saved. Return)"

text \<open>An operation that prints and then never returns.\<close>

definition never_returning :: engine where
  "never_returning = Print ''loading'' Hang"

section \<open>Stripping\<close>

lemma strip_all_space: "\<forall>c\<in>set s. isspace c \<Longrightarrow> strip s = []"
proof -
  assume "\<forall>c\<in>set s. isspace c"
  then have d: "dropWhile isspace s = []" by (induction s) simp_all
  show ?thesis unfolding strip_def d by simp
qed

lemma strip_last: "strip s \<noteq> [] \<Longrightarrow> \<not> isspace (last (strip s))"
proof -
  assume ne: "strip s \<noteq> []"
  let ?zs = "dropWhile isspace (rev (dropWhile isspace s))"
  from ne have zs: "?zs \<noteq> []" by (simp add: strip_def)
  then have "\<not> isspace (hd ?zs)" by (rule hd_dropWhile)
  moreover have "last (strip s) = hd ?zs" using zs by (simp add: strip_def last_rev)
  ultimately show ?thesis by simp
qed

lemma last_dropWhile_nonempty: "dropWhile P ys \<noteq> [] \<Longrightarrow> last (dropWhile P ys) = last ys"
proof -
  assume ne: "dropWhile P ys \<noteq> []"
  have "last ys = last (takeWhile P ys @ dropWhile P ys)" by simp
  also have "\<dots> = last (dropWhile P ys)" by (rule last_appendR [OF ne])
  finally show ?thesis by simp
qed

lemma strip_hd: "strip s \<noteq> [] \<Longrightarrow> \<not> isspace (hd (strip s))"
proof -
  assume ne: "strip s \<noteq> []"
  let ?ds = "dropWhile isspace s"
  let ?zs = "dropWhile isspace (rev ?ds)"
  from ne have zs: "?zs \<noteq> []" by (simp add: strip_def)
  have ds: "?ds \<noteq> []"
  proof
    assume e: "?ds = []"
    have "?zs = []" unfolding e by simp
    with zs show False by simp
  qed
  have "hd (strip s) = last ?zs" using zs by (simp add: strip_def hd_rev)
  also have "\<dots> = last (rev ?ds)" using zs by (rule last_dropWhile_nonempty)
  also have "\<dots> = hd ?ds" using ds by (simp add: last_rev)
  finally have "hd (strip s) = hd ?ds" .
  moreover have "\<not> isspace (hd ?ds)" using ds by (rule hd_dropWhile)
  ultimately show ?thesis by simp
qed

section \<open>The input hook\<close>

text \<open>
  C10. An answer taken from the queue is delivered stripped: the operation goes on with
  \<open>strip a\<close> and the queue loses its front element. Whatever \<open>mock_input\<close> delivers is
  empty or has no whitespace at either end. A queued answer that is all whitespace is
  delivered as the empty string, which is also what an exhausted queue delivers.
\<close>

theorem mock_input_strips:
  "(input_queue h = a # rest \<longrightarrow>
      mock_input prompt h = (strip a, h\<lparr>input_queue := rest\<rparr>)
      \<and> exec (Input prompt k) h = exec (k (strip a)) (h\<lparr>input_queue := rest\<rparr>))
   \<and> (fst (mock_input prompt h) \<noteq> [] \<longrightarrow>
        \<not> isspace (hd (fst (mock_input prompt h)))
        \<and> \<not> isspace (last (fst (mock_input prompt h))))
   \<and> (input_queue h = a # rest \<and> (\<forall>c\<in>set a. isspace c) \<longrightarrow>
        fst (mock_input prompt h) = [])
   \<and> (input_queue h = [] \<longrightarrow> fst (mock_input prompt h) = [])"
proof (intro conjI impI)
  assume q: "input_queue h = a # rest"
  show "mock_input prompt h = (strip a, h\<lparr>input_queue := rest\<rparr>)"
    using q by (simp add: mock_input_def)
  then show "exec (Input prompt k) h = exec (k (strip a)) (h\<lparr>input_queue := rest\<rparr>)"
    by simp
next
  assume ne: "fst (mock_input prompt h) \<noteq> []"
  then obtain b rest' where q: "input_queue h = b # rest'"
    by (cases "input_queue h") (simp_all add: mock_input_def)
  then have eq: "fst (mock_input prompt h) = strip b" by (simp add: mock_input_def)
  with ne have "strip b \<noteq> []" by simp
  then have "\<not> isspace (hd (strip b))" "\<not> isspace (last (strip b))"
    by (rule strip_hd, rule strip_last)
  then show "\<not> isspace (hd (fst (mock_input prompt h)))"
    and "\<not> isspace (last (fst (mock_input prompt h)))"
    using eq by simp_all
next
  assume "input_queue h = a # rest \<and> (\<forall>c\<in>set a. isspace c)"
  then show "fst (mock_input prompt h) = []"
    by (simp add: mock_input_def strip_all_space)
next
  assume "input_queue h = []"
  then show "fst (mock_input prompt h) = []" by (simp add: mock_input_def)
qed

theorem mock_input_strips_witness:
  "mock_input ''Nicho: ''
       \<lparr>input_queue = [''  seo tools '', ''n''], stdout_capture = [], exports = []\<rparr>
     = (''seo tools'', \<lparr>input_queue = [''n''], stdout_capture = [], exports = []\<rparr>)
   \<and> fst (mock_input ''Nicho: ''
            \<lparr>input_queue = [''   ''], stdout_capture = [], exports = []\<rparr>) = []
   \<and> fst (mock_input ''Nicho: ''
            \<lparr>input_queue = [], stdout_capture = [], exports = []\<rparr>) = []"
  using mock_input_strips
          [of "\<lparr>input_queue = [''  seo tools '', ''n''], stdout_capture = [], exports = []\<rparr>"
              "''  seo tools ''" "[''n'']" "''Nicho: ''" "\<lambda>a. Return"]
        mock_input_strips
          [of "\<lparr>input_queue = [''   ''], stdout_capture = [], exports = []\<rparr>"
              "''   ''" "[]" "''Nicho: ''" "\<lambda>a. Return"]
        mock_input_strips
          [of "\<lparr>input_queue = [], stdout_capture = [], exports = []\<rparr>"
              "[]" "[]" "''Nicho: ''" "\<lambda>a. Return"]
  by (simp add: strip_def isspace_def)



section \<open>Outcomes of run_analysis\<close>

lemmas eval_defs = host_of_def script_of_def console_def failing_midway_def failing_silently_def
  host_locked_out_def host_unloadable_def host_without_cwd_def run_analysis_def analyze_def analyze_response_def analyze_input_responses_def
  dispatch_def Let_def mock_save_to_csv_simple_def mock_input_def set_input_def set_stdout_def
  chdir_pass_def restore_def err_truthy_def jsonify_def get_stripped_def dict_get_def

lemma run_analysis_on_raise:
  "script hst = Inr m \<Longrightarrow> getcwd_raises hst = None \<Longrightarrow> dispatch m opt = Some operation \<Longrightarrow>
   exec operation \<lparr>input_queue = q, stdout_capture = [], exports = []\<rparr> = (Raises e, h) \<Longrightarrow>
   fst (run_analysis hst opt q t p) = Returns (stdout_capture h, exports h, Some (str e))"
  by (simp add: run_analysis_def Let_def)

lemma analyze_on_queue:
  "analyze_input_responses opt params = Queue q \<Longrightarrow>
   analyze hst (Inr (opt, params)) p = analyze_response (run_analysis hst opt q 600 p)"
  by (simp add: analyze_def)

section \<open>Failure of the operation\<close>

text \<open>
  C1, as the code has it. When the operation is reached (the script loads and
  \<open>os.getcwd()\<close> succeeds) and raises an exception with non-empty text after some
  output and some export records, \<open>run_analysis\<close> returns the captured output, the
  export records and the text of the exception; the response of \<open>analyze\<close> has status
  200, the captured output and the text as its error, and an empty list of exports: the
  endpoint does not pass the export records on.
\<close>

theorem analyze_engine_error:
  assumes "analyze_input_responses opt params = Queue q"
    and "script hst = Inr m"
    and "getcwd_raises hst = None"
    and "dispatch m opt = Some operation"
    and "exec operation \<lparr>input_queue = q, stdout_capture = [], exports = []\<rparr> = (Raises e, h)"
    and "str e \<noteq> []"
  shows "fst (run_analysis hst opt q 600 p) = Returns (stdout_capture h, exports h, Some (str e))
       \<and> fst (analyze hst (Inr (opt, params)) p)
           = Returns (jsonify [(''output'', JStr (stdout_capture h)),
                               (''exports'', JArr []),
                               (''error'', JStr (str e))], 200)"
proof -
  have r: "fst (run_analysis hst opt q 600 p) = Returns (stdout_capture h, exports h, Some (str e))"
    using assms(2-5) by (rule run_analysis_on_raise)
  then obtain p' where "run_analysis hst opt q 600 p
      = (Returns (stdout_capture h, exports h, Some (str e)), p')"
    by (cases "run_analysis hst opt q 600 p") simp
  then have "fst (analyze hst (Inr (opt, params)) p)
           = Returns (jsonify [(''output'', JStr (stdout_capture h)),
                               (''exports'', JArr []),
                               (''error'', JStr (str e))], 200)"
    using assms(1,6) by (simp add: analyze_on_queue analyze_response_def err_truthy_def)
  with r show ?thesis by simp
qed

theorem analyze_engine_error_witness:
  "fst (run_analysis (host_of failing_midway) 7 [] 600 console)
     = Returns (''3 keywords'',
                [JObj [(''filename'', JStr ''site.csv''),
                       (''data'', JArr [JObj [(''keyword'', JStr ''seo'')]])]],
                Some ''timeout contacting server'')
   \<and> fst (analyze (host_of failing_midway) (Inr (7, JObj [])) console)
     = Returns (jsonify [(''output'', JStr ''3 keywords''),
                         (''exports'', JArr []),
                         (''error'', JStr ''timeout contacting server'')], 200)"
  using analyze_engine_error
          [of 7 "JObj []" "[]" "host_of failing_midway" "script_of failing_midway" failing_midway
              "Exception ''timeout contacting server''"
              "\<lparr>input_queue = [], stdout_capture = ''3 keywords'',
                exports = [JObj [(''filename'', JStr ''site.csv''),
                                 (''data'', JArr [JObj [(''keyword'', JStr ''seo'')]])]]\<rparr>"
              console]
  by (simp add: analyze_input_responses_def host_of_def script_of_def dispatch_def
        failing_midway_def mock_save_to_csv_simple_def)

text \<open>
  C1 as stated fails: the operation printed, exported one record and raised; the
  response carries the output and the error, and no export record.
\<close>

theorem analyze_drops_exports:
  "fst (run_analysis (host_of failing_midway) 1 [''https://example.com'', ''n''] 600 console)
     = Returns (''3 keywords'',
                [JObj [(''filename'', JStr ''site.csv''),
                       (''data'', JArr [JObj [(''keyword'', JStr ''seo'')]])]],
                Some ''timeout contacting server'')
   \<and> fst (analyze (host_of failing_midway)
             (Inr (1, JObj [(''domain_url'', JStr ''example.com'')])) console)
     = Returns (JObj [(''output'', JStr ''3 keywords''),
                      (''exports'', JArr []),
                      (''error'', JStr ''timeout contacting server'')], 200)"
  by (simp add: eval_defs strip_def isspace_def with_scheme_def startswith_def)

text \<open>
  C6 at an exception whose text is empty: \<open>run_analysis\<close> returns the empty string as
  its third element, \<open>if err:\<close> takes it for no error, and the response reports success
  with a null error.
\<close>

theorem analyze_empty_error_text:
  "fst (run_analysis (host_of failing_silently) 7 [] 600 console)
     = Returns (''3 keywords'', [], Some [])
   \<and> fst (analyze (host_of failing_silently) (Inr (7, JObj [])) console)
     = Returns (JObj [(''output'', JStr ''3 keywords''),
                      (''exports'', JArr []),
                      (''error'', JNull)], 200)"
  by (simp add: eval_defs)


section \<open>Export records\<close>

lemma export_record_built:
  "export_record ''filename'' ''data''
     (JObj [(''filename'', JStr filename), (''data'', JArr (map JObj data))])"
  by (simp add: export_record_def list_all_iff)

lemma mock_save_exports:
  "\<forall>x\<in>set (exports h). export_record ''filename'' ''data'' x \<Longrightarrow>
   \<forall>x\<in>set (exports (snd (mock_save_to_csv_simple data filename h))).
      export_record ''filename'' ''data'' x"
  using export_record_built by (simp add: mock_save_to_csv_simple_def)

lemma exec_exports:
  "\<forall>x\<in>set (exports h). export_record ''filename'' ''data'' x \<Longrightarrow>
   \<forall>x\<in>set (exports (snd (exec operation h))). export_record ''filename'' ''data'' x"
proof (induction operation arbitrary: h)
  case (Input prompt k)
  obtain a h' where m: "mock_input prompt h = (a, h')" by (cases "mock_input prompt h")
  then have "exports h' = exports h"
    by (auto simp: mock_input_def split: list.splits)
  with Input.prems have "\<forall>x\<in>set (exports h'). export_record ''filename'' ''data'' x" by simp
  then have "\<forall>x\<in>set (exports (snd (exec (k a) h'))). export_record ''filename'' ''data'' x"
    by (rule Input.IH [OF rangeI])
  with m show ?case by simp
next
  case (Save data filename k)
  obtain r h' where m: "mock_save_to_csv_simple data filename h = (r, h')"
    by (cases "mock_save_to_csv_simple data filename h")
  from mock_save_exports [OF Save.prems, of data filename] m
  have "\<forall>x\<in>set (exports h'). export_record ''filename'' ''data'' x" by simp
  then have "\<forall>x\<in>set (exports (snd (exec (k r) h'))). export_record ''filename'' ''data'' x"
    by (rule Save.IH [OF rangeI])
  with m show ?case by simp
next
  case (Print s operation)
  from Print.IH [of "h\<lparr>stdout_capture := stdout_capture h @ s\<rparr>"] Print.prems
  show ?case by simp
qed simp_all

lemma run_analysis_exports:
  "fst (run_analysis hst opt q t p) = Returns (out, xs, err) \<Longrightarrow>
   \<forall>x\<in>set xs. export_record ''filename'' ''data'' x"
proof -
  assume r: "fst (run_analysis hst opt q t p) = Returns (out, xs, err)"
  let ?h0 = "\<lparr>input_queue = q, stdout_capture = [], exports = []\<rparr>"
  have inv: "\<And>operation. \<forall>x\<in>set (exports (snd (exec operation ?h0))).
                 export_record ''filename'' ''data'' x"
    by (rule exec_exports) simp
  show ?thesis
  proof (cases "script hst")
    case (Inl e)
    with r show ?thesis by (simp add: run_analysis_def Let_def)
  next
    case (Inr m)
    show ?thesis
    proof (cases "getcwd_raises hst")
      case (Some e)
      with Inr r show ?thesis by (simp add: run_analysis_def Let_def)
    next
      case None
      note cwd_ok = this
      show ?thesis
      proof (cases "dispatch m opt")
        case None
        with Inr cwd_ok r show ?thesis by (simp add: run_analysis_def Let_def)
      next
        case (Some operation)
        obtain res h where e: "exec operation ?h0 = (res, h)" by (cases "exec operation ?h0")
        with inv [of operation]
        have "\<forall>x\<in>set (exports h). export_record ''filename'' ''data'' x"
          by simp
        with Inr cwd_ok Some e r show ?thesis
          by (cases res) (auto simp: run_analysis_def Let_def)
      qed
    qed
  qed
qed

text \<open>
  C2, as the code has it. The record that an export call appends is a dict of exactly
  two entries, \<open>filename\<close> holding a string and \<open>data\<close> holding a sequence of records;
  so is every element of the export list that \<open>run_analysis\<close> returns and every element
  of the \<open>exports\<close> list of a response of \<open>analyze\<close>.
\<close>

theorem export_records_filename_data:
  "export_record ''filename'' ''data''
      (last (exports (snd (mock_save_to_csv_simple data filename h))))
   \<and> (fst (run_analysis hst opt q t p) = Returns (out, xs, err) \<longrightarrow>
        (\<forall>x\<in>set xs. export_record ''filename'' ''data'' x))
   \<and> (fst (analyze hst request p) = Returns (body, status)
        \<and> field body ''exports'' = Some (JArr ys) \<longrightarrow>
        (\<forall>y\<in>set ys. export_record ''filename'' ''data'' y))"
proof (intro conjI impI)
  show "export_record ''filename'' ''data''
      (last (exports (snd (mock_save_to_csv_simple data filename h))))"
    using export_record_built by (simp add: mock_save_to_csv_simple_def)
next
  assume "fst (run_analysis hst opt q t p) = Returns (out, xs, err)"
  then show "\<forall>x\<in>set xs. export_record ''filename'' ''data'' x"
    by (rule run_analysis_exports)
next
  assume a: "fst (analyze hst request p) = Returns (body, status)
        \<and> field body ''exports'' = Some (JArr ys)"
  show "\<forall>y\<in>set ys. export_record ''filename'' ''data'' y"
  proof (cases request)
    case (Inl e)
    with a show ?thesis by (auto simp: analyze_def jsonify_def field_def)
  next
    case (Inr req)
    obtain opt' params where req: "req = (opt', params)" by (cases req)
    show ?thesis
    proof (cases "analyze_input_responses opt' params")
      case (Crash e)
      with a Inr req show ?thesis by (auto simp: analyze_def jsonify_def field_def)
    next
      case (Reject response)
      then have "\<exists>m. response = (JObj [(''error'', JStr m)], 400)"
        by (auto simp: analyze_input_responses_def jsonify_def split: if_splits sum.splits)
      with a Inr req Reject show ?thesis by (auto simp: analyze_def field_def)
    next
      case (Queue input_responses)
      obtain res p' where ra: "run_analysis hst opt' input_responses 600 p = (res, p')"
        by (cases "run_analysis hst opt' input_responses 600 p")
      show ?thesis
      proof (cases res)
        case (Returns triple)
        obtain out' xs' err' where t: "triple = (out', xs', err')" by (cases triple)
        with ra Returns have "fst (run_analysis hst opt' input_responses 600 p)
            = Returns (out', xs', err')" by simp
        then have "\<forall>x\<in>set xs'. export_record ''filename'' ''data'' x"
          by (rule run_analysis_exports)
        with a Inr req Queue ra Returns t show ?thesis
          by (auto simp: analyze_def analyze_response_def jsonify_def field_def split: if_splits)
      next
        case (Raises e)
        with a Inr req Queue ra show ?thesis
          by (auto simp: analyze_def analyze_response_def jsonify_def field_def)
      next
        case Hangs
        with a Inr req Queue ra show ?thesis
          by (simp add: analyze_def analyze_response_def)
      qed
    qed
  qed
qed


theorem export_records_filename_data_witness:
  "fst (analyze (host_of exporting) (Inr (8, JObj [])) console)
     = Returns (JObj [(''output'', JStr []),
                      (''exports'', JArr [JObj [(''filename'', JStr ''site.csv''),
                                                (''data'', JArr [JObj [(''keyword'', JStr ''seo'')]])]]),
                      (''error'', JNull)], 200)
   \<and> export_record ''filename'' ''data''
        (JObj [(''filename'', JStr ''site.csv''),
               (''data'', JArr [JObj [(''keyword'', JStr ''seo'')]])])"
  using export_records_filename_data
          [of "[[(''keyword'', JStr ''seo'')]]" "''site.csv''"
              "\<lparr>input_queue = [], stdout_capture = [], exports = []\<rparr>"
              "host_of exporting" 8 "[]" 600 console "[]"
              "[JObj [(''filename'', JStr ''site.csv''),
                      (''data'', JArr [JObj [(''keyword'', JStr ''seo'')]])]]" None
              "Inr (8, JObj [])"
              "JObj [(''output'', JStr []),
                      (''exports'', JArr [JObj [(''filename'', JStr ''site.csv''),
                                                (''data'', JArr [JObj [(''keyword'', JStr ''seo'')]])]]),
                      (''error'', JNull)]" 200
              "[JObj [(''filename'', JStr ''site.csv''),
                      (''data'', JArr [JObj [(''keyword'', JStr ''seo'')]])]]"]
  by (simp add: eval_defs exporting_def field_def)

text \<open>
  C2 as stated fails: the two entries of an export record are not called \<open>name\<close> and
  \<open>payload\<close>.
\<close>

theorem export_record_not_name_payload:
  "exports (snd (mock_save_to_csv_simple [[(''keyword'', JStr ''seo'')]] ''site.csv''
                   \<lparr>input_queue = [], stdout_capture = [], exports = []\<rparr>))
     = [JObj [(''filename'', JStr ''site.csv''),
              (''data'', JArr [JObj [(''keyword'', JStr ''seo'')]])]]
   \<and> \<not> export_record ''name'' ''payload''
         (JObj [(''filename'', JStr ''site.csv''),
                (''data'', JArr [JObj [(''keyword'', JStr ''seo'')]])])"
  by (simp add: mock_save_to_csv_simple_def export_record_def)

section \<open>Restoring the process-wide state\<close>

lemma dispatch_None_iff: "dispatch m opt = None \<longleftrightarrow> opt < 1 \<or> 8 < opt"
  by (auto simp: dispatch_def)

lemma run_analysis_load_failure:
  "script hst = Inl e \<Longrightarrow>
   run_analysis hst opt q t p = (Raises e, p\<lparr>probe := probe p @ [LoadScript]\<rparr>)"
  by (simp add: run_analysis_def Let_def)

lemma run_analysis_finally:
  assumes "script hst = Inr m"
    and "getcwd_raises hst = None"
    and "dispatch m opt = Some operation"
    and "fst (exec operation \<lparr>input_queue = q, stdout_capture = [], exports = []\<rparr>) \<noteq> Hangs"
  shows "builtins_input (snd (run_analysis hst opt q t p)) = builtins_input p"
    and "sys_stdout (snd (run_analysis hst opt q t p)) = sys_stdout p"
    and "cwd (snd (run_analysis hst opt q t p))
           = (if can_chdir hst (cwd p) \<or> \<not> can_chdir hst (APP_DIR hst) then cwd p
              else APP_DIR hst)"
    and "probe (snd (run_analysis hst opt q t p))
           = probe p @ [LoadScript, SetInput QueueInput, SetStdout CaptureBuffer,
                        Chdir (APP_DIR hst) (can_chdir hst (APP_DIR hst)), Invoke opt,
                        SetInput (builtins_input p), SetStdout (sys_stdout p),
                        Chdir (cwd p) (can_chdir hst (cwd p))]"
proof -
  obtain res h where e: "exec operation \<lparr>input_queue = q, stdout_capture = [], exports = []\<rparr>
      = (res, h)"
    by (cases "exec operation \<lparr>input_queue = q, stdout_capture = [], exports = []\<rparr>")
  with assms(4) have r: "res \<noteq> Hangs" by simp
  show "builtins_input (snd (run_analysis hst opt q t p)) = builtins_input p"
    using r assms(1-3) e
    by (cases res)
       (simp_all add: run_analysis_def Let_def restore_def chdir_pass_def set_input_def
          set_stdout_def)
  show "sys_stdout (snd (run_analysis hst opt q t p)) = sys_stdout p"
    using r assms(1-3) e
    by (cases res)
       (simp_all add: run_analysis_def Let_def restore_def chdir_pass_def set_input_def
          set_stdout_def)
  show "cwd (snd (run_analysis hst opt q t p))
           = (if can_chdir hst (cwd p) \<or> \<not> can_chdir hst (APP_DIR hst) then cwd p
              else APP_DIR hst)"
    using r assms(1-3) e
    by (cases res)
       (simp_all add: run_analysis_def Let_def restore_def chdir_pass_def set_input_def
          set_stdout_def)
  show "probe (snd (run_analysis hst opt q t p))
           = probe p @ [LoadScript, SetInput QueueInput, SetStdout CaptureBuffer,
                        Chdir (APP_DIR hst) (can_chdir hst (APP_DIR hst)), Invoke opt,
                        SetInput (builtins_input p), SetStdout (sys_stdout p),
                        Chdir (cwd p) (can_chdir hst (cwd p))]"
    using r assms(1-3) e
    by (cases res)
       (simp_all add: run_analysis_def Let_def restore_def chdir_pass_def set_input_def
          set_stdout_def)
qed

text \<open>
  When \<open>os.getcwd()\<close> raises, the exception leaves \<open>run_analysis\<close> from line 73, outside
  the \<open>try\<close>: the input source and the output sink stay redirected.
\<close>

lemma run_analysis_getcwd_failure:
  "run_analysis host_without_cwd 7 [] 600 console
     = (Raises (Exception ''[Errno 2] No such file or directory''),
        \<lparr>builtins_input = QueueInput, sys_stdout = CaptureBuffer, cwd = ''/srv/api'',
         probe = [LoadScript, SetInput QueueInput, SetStdout CaptureBuffer]\<rparr>)"
  by (simp add: eval_defs)

text \<open>
  C3, as the code has it, for a selector from 1 to 8 and a call in which \<open>os.getcwd()\<close>
  succeeds. When the script fails to load, the exception leaves \<open>run_analysis\<close> before
  anything is redirected, and the three are untouched. When the operation returns or
  raises, \<open>builtins.input\<close> and \<open>sys.stdout\<close> are as they were before the call; the
  working directory is as before when \<open>os.chdir\<close> back to it succeeds (or the process
  never left it, \<open>APP_DIR\<close> not being enterable), and when that call raises \<open>OSError\<close>
  the error is passed over and the process stays in \<open>APP_DIR\<close>. The probe shows each
  redirection made once and undone once, after the operation.
\<close>

theorem run_analysis_restores:
  assumes "1 \<le> opt" and "opt \<le> 8"
  shows "(script hst = Inl e \<longrightarrow>
            fst (run_analysis hst opt q t p) = Raises e
            \<and> builtins_input (snd (run_analysis hst opt q t p)) = builtins_input p
            \<and> sys_stdout (snd (run_analysis hst opt q t p)) = sys_stdout p
            \<and> cwd (snd (run_analysis hst opt q t p)) = cwd p
            \<and> probe (snd (run_analysis hst opt q t p)) = probe p @ [LoadScript])
       \<and> (script hst = Inr m \<and> getcwd_raises hst = None
            \<and> fst (exec (the (dispatch m opt))
                      \<lparr>input_queue = q, stdout_capture = [], exports = []\<rparr>) \<noteq> Hangs \<longrightarrow>
            builtins_input (snd (run_analysis hst opt q t p)) = builtins_input p
            \<and> sys_stdout (snd (run_analysis hst opt q t p)) = sys_stdout p
            \<and> cwd (snd (run_analysis hst opt q t p))
                = (if can_chdir hst (cwd p) \<or> \<not> can_chdir hst (APP_DIR hst) then cwd p
                   else APP_DIR hst)
            \<and> probe (snd (run_analysis hst opt q t p))
                = probe p @ [LoadScript, SetInput QueueInput, SetStdout CaptureBuffer,
                             Chdir (APP_DIR hst) (can_chdir hst (APP_DIR hst)), Invoke opt,
                             SetInput (builtins_input p), SetStdout (sys_stdout p),
                             Chdir (cwd p) (can_chdir hst (cwd p))])"
proof (intro conjI impI)
  assume l: "script hst = Inl e"
  show "fst (run_analysis hst opt q t p) = Raises e"
    and "builtins_input (snd (run_analysis hst opt q t p)) = builtins_input p"
    and "sys_stdout (snd (run_analysis hst opt q t p)) = sys_stdout p"
    and "cwd (snd (run_analysis hst opt q t p)) = cwd p"
    and "probe (snd (run_analysis hst opt q t p)) = probe p @ [LoadScript]"
    by (simp_all add: run_analysis_load_failure [OF l])
next
  assume a: "script hst = Inr m \<and> getcwd_raises hst = None
            \<and> fst (exec (the (dispatch m opt))
                      \<lparr>input_queue = q, stdout_capture = [], exports = []\<rparr>) \<noteq> Hangs"
  from assms have "dispatch m opt \<noteq> None" by (simp add: dispatch_None_iff)
  then obtain operation where d: "dispatch m opt = Some operation" by auto
  with a have h: "fst (exec operation \<lparr>input_queue = q, stdout_capture = [], exports = []\<rparr>)
      \<noteq> Hangs" by simp
  from a have s: "script hst = Inr m" and g: "getcwd_raises hst = None" by simp_all
  show "builtins_input (snd (run_analysis hst opt q t p)) = builtins_input p"
    by (rule run_analysis_finally(1) [OF s g d h])
  show "sys_stdout (snd (run_analysis hst opt q t p)) = sys_stdout p"
    by (rule run_analysis_finally(2) [OF s g d h])
  show "cwd (snd (run_analysis hst opt q t p))
                = (if can_chdir hst (cwd p) \<or> \<not> can_chdir hst (APP_DIR hst) then cwd p
                   else APP_DIR hst)"
    by (rule run_analysis_finally(3) [OF s g d h])
  show "probe (snd (run_analysis hst opt q t p))
                = probe p @ [LoadScript, SetInput QueueInput, SetStdout CaptureBuffer,
                             Chdir (APP_DIR hst) (can_chdir hst (APP_DIR hst)), Invoke opt,
                             SetInput (builtins_input p), SetStdout (sys_stdout p),
                             Chdir (cwd p) (can_chdir hst (cwd p))]"
    by (rule run_analysis_finally(4) [OF s g d h])
qed

theorem run_analysis_restores_witness:
  "snd (run_analysis (host_of failing_midway) 3 [''https://example.com''] 600 console)
     = \<lparr>builtins_input = ConsoleInput, sys_stdout = ConsoleOutput, cwd = ''/srv/api'',
        probe = [LoadScript, SetInput QueueInput, SetStdout CaptureBuffer,
                 Chdir ''/srv/app'' True, Invoke 3,
                 SetInput ConsoleInput, SetStdout ConsoleOutput, Chdir ''/srv/api'' True]\<rparr>
   \<and> run_analysis host_unloadable 3 [''https://example.com''] 600 console
     = (Raises (Exception ''No module named requests''),
        \<lparr>builtins_input = ConsoleInput, sys_stdout = ConsoleOutput, cwd = ''/srv/api'',
         probe = [LoadScript]\<rparr>)"
  using run_analysis_restores
          [of 3 "host_of failing_midway" "Exception []" "[''https://example.com'']" 600 console
              "script_of failing_midway"]
        run_analysis_restores
          [of 3 host_unloadable "Exception ''No module named requests''"
              "[''https://example.com'']" 600 console "script_of Return"]
  by (simp add: eval_defs)

text \<open>
  C3 as stated fails: the directory the process started in cannot be entered again, the
  operation returns normally, and the process is left in \<open>APP_DIR\<close>.
\<close>

theorem run_analysis_cwd_not_restored:
  "cwd console = ''/srv/api''
   \<and> cwd (snd (run_analysis host_locked_out 7 [] 600 console)) = ''/srv/app''
   \<and> fst (run_analysis host_locked_out 7 [] 600 console) = Returns ([], [], None)"
  by (simp add: eval_defs)

section \<open>Selectors outside 1 to 8\<close>

text \<open>
  C8, as the code has it. For a selector below 1 or above 8, \<open>run_analysis\<close> loads the
  script and makes the redirections before it looks at the selector. When the script
  loads and \<open>os.getcwd()\<close> succeeds, it returns empty output, no exports and the message
  that ends in the selector, and the probe shows the redirections made and undone and
  no operation invoked. When the script fails to load, the exception of the load leaves
  \<open>run_analysis\<close> instead, nothing redirected and nothing invoked. \<open>analyze\<close> answers such
  a selector with status 400 and a body that holds an error only, and leaves the process
  as it was: \<open>run_analysis\<close> is not reached.
\<close>

theorem unsupported_selector:
  assumes "opt < 1 \<or> 8 < opt"
  shows "(script hst = Inr m \<and> getcwd_raises hst = None \<longrightarrow>
            fst (run_analysis hst opt q t p)
              = Returns ([], [], Some (invalid_option_prefix @ py_str opt))
            \<and> probe (snd (run_analysis hst opt q t p))
              = probe p @ [LoadScript, SetInput QueueInput, SetStdout CaptureBuffer,
                           Chdir (APP_DIR hst) (can_chdir hst (APP_DIR hst)),
                           SetInput (builtins_input p), SetStdout (sys_stdout p),
                           Chdir (cwd p) (can_chdir hst (cwd p))])
       \<and> (script hst = Inl e \<longrightarrow>
            run_analysis hst opt q t p = (Raises e, p\<lparr>probe := probe p @ [LoadScript]\<rparr>))
       \<and> analyze hst (Inr (opt, params)) p
           = (Returns (jsonify [(''error'', JStr ''option deve ser entre 1 e 8'')], 400), p)"
proof (intro conjI impI)
  assume a: "script hst = Inr m \<and> getcwd_raises hst = None"
  have d: "dispatch m opt = None" using assms by (simp add: dispatch_None_iff)
  show "fst (run_analysis hst opt q t p)
          = Returns ([], [], Some (invalid_option_prefix @ py_str opt))"
    using a d by (simp add: run_analysis_def Let_def)
  show "probe (snd (run_analysis hst opt q t p))
          = probe p @ [LoadScript, SetInput QueueInput, SetStdout CaptureBuffer,
                       Chdir (APP_DIR hst) (can_chdir hst (APP_DIR hst)),
                       SetInput (builtins_input p), SetStdout (sys_stdout p),
                       Chdir (cwd p) (can_chdir hst (cwd p))]"
    using a d
    by (simp add: run_analysis_def Let_def restore_def chdir_pass_def set_input_def
          set_stdout_def)
next
  assume "script hst = Inl e"
  then show "run_analysis hst opt q t p = (Raises e, p\<lparr>probe := probe p @ [LoadScript]\<rparr>)"
    by (rule run_analysis_load_failure)
next
  have "analyze_input_responses opt params
      = Reject (jsonify [(''error'', JStr ''option deve ser entre 1 e 8'')], 400)"
    using assms by (auto simp: analyze_input_responses_def)
  then show "analyze hst (Inr (opt, params)) p
           = (Returns (jsonify [(''error'', JStr ''option deve ser entre 1 e 8'')], 400), p)"
    by (simp add: analyze_def)
qed

theorem unsupported_selector_witness:
  "fst (run_analysis (host_of failing_midway) 9 [] 600 console)
     = Returns ([], [], Some (invalid_option_prefix @ ''9''))
   \<and> probe (snd (run_analysis (host_of failing_midway) 9 [] 600 console))
     = [LoadScript, SetInput QueueInput, SetStdout CaptureBuffer, Chdir ''/srv/app'' True,
        SetInput ConsoleInput, SetStdout ConsoleOutput, Chdir ''/srv/api'' True]
   \<and> analyze (host_of failing_midway) (Inr (9, JObj [(''niche'', JStr ''seo'')])) console
     = (Returns (JObj [(''error'', JStr ''option deve ser entre 1 e 8'')], 400), console)"
  using unsupported_selector
          [of 9 "host_of failing_midway" "script_of failing_midway" "[]" 600 console
              "Exception []" "JObj [(''niche'', JStr ''seo'')]"]
  by (simp add: host_of_def console_def py_str_def jsonify_def char_of_eq_iff)

text \<open>
  C8 as stated fails: the script does not load, and \<open>run_analysis\<close> with selector 9
  raises the exception of the load instead of returning the triple with the message.
\<close>

theorem unsupported_selector_load_failure:
  "run_analysis host_unloadable 9 [] 600 console
     = (Raises (Exception ''No module named requests''),
        \<lparr>builtins_input = ConsoleInput, sys_stdout = ConsoleOutput, cwd = ''/srv/api'',
         probe = [LoadScript]\<rparr>)"
  by (simp add: eval_defs)

section \<open>The timeout\<close>

text \<open>
  C9, as the code has it. \<open>run_analysis\<close> does the same for every value of
  \<open>timeout_seconds\<close>. When the operation never returns, neither does \<open>run_analysis\<close>,
  and the input source and output sink stay redirected. When the operation returns or
  raises, the input source and the output sink are put back and \<open>os.chdir\<close> back to
  the prior directory is called, once each.
\<close>

theorem timeout_seconds_unused:
  "run_analysis hst opt q t p = run_analysis hst opt q t' p
   \<and> (script hst = Inr m \<and> getcwd_raises hst = None \<and> dispatch m opt = Some operation
        \<and> fst (exec operation \<lparr>input_queue = q, stdout_capture = [], exports = []\<rparr>) = Hangs
      \<longrightarrow> fst (run_analysis hst opt q t p) = Hangs
          \<and> builtins_input (snd (run_analysis hst opt q t p)) = QueueInput
          \<and> sys_stdout (snd (run_analysis hst opt q t p)) = CaptureBuffer)
   \<and> (script hst = Inr m \<and> getcwd_raises hst = None \<and> dispatch m opt = Some operation
        \<and> fst (exec operation \<lparr>input_queue = q, stdout_capture = [], exports = []\<rparr>) \<noteq> Hangs
      \<longrightarrow> builtins_input (snd (run_analysis hst opt q t p)) = builtins_input p
          \<and> sys_stdout (snd (run_analysis hst opt q t p)) = sys_stdout p
          \<and> probe (snd (run_analysis hst opt q t p))
              = probe p @ [LoadScript, SetInput QueueInput, SetStdout CaptureBuffer,
                           Chdir (APP_DIR hst) (can_chdir hst (APP_DIR hst)), Invoke opt,
                           SetInput (builtins_input p), SetStdout (sys_stdout p),
                           Chdir (cwd p) (can_chdir hst (cwd p))])"
proof (intro conjI impI)
  show "run_analysis hst opt q t p = run_analysis hst opt q t' p"
    by (simp add: run_analysis_def)
next
  assume a: "script hst = Inr m \<and> getcwd_raises hst = None \<and> dispatch m opt = Some operation
        \<and> fst (exec operation \<lparr>input_queue = q, stdout_capture = [], exports = []\<rparr>) = Hangs"
  obtain res h where e: "exec operation \<lparr>input_queue = q, stdout_capture = [], exports = []\<rparr>
      = (res, h)"
    by (cases "exec operation \<lparr>input_queue = q, stdout_capture = [], exports = []\<rparr>")
  with a have r: "res = Hangs" by simp
  show "fst (run_analysis hst opt q t p) = Hangs"
    and "builtins_input (snd (run_analysis hst opt q t p)) = QueueInput"
    and "sys_stdout (snd (run_analysis hst opt q t p)) = CaptureBuffer"
    using a e r
    by (simp_all add: run_analysis_def Let_def chdir_pass_def set_input_def set_stdout_def)
next
  assume a: "script hst = Inr m \<and> getcwd_raises hst = None \<and> dispatch m opt = Some operation
        \<and> fst (exec operation \<lparr>input_queue = q, stdout_capture = [], exports = []\<rparr>) \<noteq> Hangs"
  then have s: "script hst = Inr m" and g: "getcwd_raises hst = None"
    and d: "dispatch m opt = Some operation"
    and h: "fst (exec operation \<lparr>input_queue = q, stdout_capture = [], exports = []\<rparr>) \<noteq> Hangs"
    by simp_all
  show "builtins_input (snd (run_analysis hst opt q t p)) = builtins_input p"
    by (rule run_analysis_finally(1) [OF s g d h])
  show "sys_stdout (snd (run_analysis hst opt q t p)) = sys_stdout p"
    by (rule run_analysis_finally(2) [OF s g d h])
  show "probe (snd (run_analysis hst opt q t p))
              = probe p @ [LoadScript, SetInput QueueInput, SetStdout CaptureBuffer,
                           Chdir (APP_DIR hst) (can_chdir hst (APP_DIR hst)), Invoke opt,
                           SetInput (builtins_input p), SetStdout (sys_stdout p),
                           Chdir (cwd p) (can_chdir hst (cwd p))]"
    by (rule run_analysis_finally(4) [OF s g d h])
qed

theorem timeout_seconds_unused_witness:
  "run_analysis (host_of never_returning) 7 [] 1 console
     = run_analysis (host_of never_returning) 7 [] 600 console
   \<and> fst (run_analysis (host_of never_returning) 7 [] 1 console) = Hangs
   \<and> builtins_input (snd (run_analysis (host_of never_returning) 7 [] 1 console)) = QueueInput
   \<and> sys_stdout (snd (run_analysis (host_of never_returning) 7 [] 1 console)) = CaptureBuffer
   \<and> builtins_input (snd (run_analysis (host_of failing_midway) 7 [] 1 console)) = ConsoleInput
   \<and> sys_stdout (snd (run_analysis (host_of failing_midway) 7 [] 1 console)) = ConsoleOutput"
  using timeout_seconds_unused
          [of "host_of never_returning" 7 "[]" 1 console 600 "script_of never_returning"
              never_returning]
        timeout_seconds_unused
          [of "host_of failing_midway" 7 "[]" 1 console 600 "script_of failing_midway"
              failing_midway]
  by (simp add: eval_defs never_returning_def)

text \<open>
  C9 as stated fails: with a timeout of one second and an operation that never returns,
  the call is not ended as failed; it hangs with the redirections in place.
\<close>

theorem no_bound_on_duration:
  "run_analysis (host_of never_returning) 7 [] 1 console
     = (Hangs,
        \<lparr>builtins_input = QueueInput, sys_stdout = CaptureBuffer, cwd = ''/srv/app'',
         probe = [LoadScript, SetInput QueueInput, SetStdout CaptureBuffer,
                  Chdir ''/srv/app'' True, Invoke 7]\<rparr>)"
  by (simp add: eval_defs never_returning_def)

section \<open>Validation of the parameters\<close>









section \<open>The answer queue\<close>

lemma supplied_get_stripped:
  "supplied kvs key \<Longrightarrow>
   get_stripped (JObj kvs) key = Inr (parameter kvs key) \<and> parameter kvs key \<noteq> []"
  by (auto simp: supplied_def parameter_def get_stripped_def dict_get_def strip_def
           split: option.splits json.splits)

lemma parameter_strip: "parameter kvs key = strip (supplied_text kvs key)"
  by (simp add: parameter_def supplied_text_def strip_def split: option.splits json.splits)

lemma startswith_append: "startswith u pre \<Longrightarrow> u = pre @ drop (length pre) u"
proof -
  assume "startswith u pre"
  then have "take (length pre) u = pre" by (simp only: startswith_def)
  then show ?thesis by (metis append_take_drop_id)
qed

lemma http_scheme_given:
  assumes "startswith u ''http://'' \<or> startswith u ''https://''"
  shows "scheme_given u"
proof -
  from assms obtain r where "u = ''http://'' @ r \<or> u = ''https://'' @ r"
    using startswith_append by blast
  then show ?thesis
    by (auto simp: scheme_given_def isalpha_ascii_def scheme_char_def startswith_def)
qed

lemma with_scheme_words: "http_or_no_scheme u \<Longrightarrow> with_scheme u = scheme_defaulted u"
  using http_scheme_given [of u]
  by (auto simp: http_or_no_scheme_def with_scheme_def scheme_defaulted_def)


lemma queue_built:
  assumes "1 \<le> opt" and "opt \<le> 8"
    and "\<forall>k\<in>set (required_params opt). supplied kvs k"
  shows "analyze_input_responses opt (JObj kvs)
           = Queue (table_queue opt with_scheme (parameter kvs) (flag kvs ''include_subdomains''))"
proof -
  from assms(1,2) consider "opt = 1" | "opt = 2" | "opt = 3" | "opt = 4" | "opt = 5"
    | "opt = 6" | "opt = 7" | "opt = 8"
    by arith
  then show ?thesis
  proof cases
    case 1
    with assms(3) have "supplied kvs ''domain_url''" by (simp add: required_params_def)
    from supplied_get_stripped [OF this] 1 show ?thesis
      by (simp add: analyze_input_responses_def table_queue_def dict_get_def
            flag_def split: option.splits)
  next
    case 2
    with assms(3) have "supplied kvs ''niche''" by (simp add: required_params_def)
    from supplied_get_stripped [OF this] 2 show ?thesis
      by (simp add: analyze_input_responses_def table_queue_def)
  next
    case 3
    with assms(3) have "supplied kvs ''url''" by (simp add: required_params_def)
    from supplied_get_stripped [OF this] 3 show ?thesis
      by (simp add: analyze_input_responses_def table_queue_def)
  next
    case 4
    with assms(3) have "supplied kvs ''keyword''" by (simp add: required_params_def)
    from supplied_get_stripped [OF this] 4 show ?thesis
      by (simp add: analyze_input_responses_def table_queue_def)
  next
    case 5
    with assms(3) have "supplied kvs ''domain_url''" "supplied kvs ''theme''"
      by (simp_all add: required_params_def)
    from supplied_get_stripped [OF this(1)] supplied_get_stripped [OF this(2)] 5 show ?thesis
      by (simp add: analyze_input_responses_def table_queue_def)
  next
    case 6
    with assms(3) have "supplied kvs ''domain_url''" by (simp add: required_params_def)
    from supplied_get_stripped [OF this] 6 show ?thesis
      by (simp add: analyze_input_responses_def table_queue_def dict_get_def
            flag_def split: option.splits)
  next
    case 7
    then show ?thesis by (simp add: analyze_input_responses_def table_queue_def)
  next
    case 8
    then show ?thesis by (simp add: analyze_input_responses_def table_queue_def)
  qed
qed

lemma table_queue_words:
  assumes "\<forall>k\<in>set (required_params opt). strip (supplied_text kvs k) = supplied_text kvs k"
    and "http_or_no_scheme (supplied_text kvs ''domain_url'')"
    and "http_or_no_scheme (supplied_text kvs ''url'')"
  shows "table_queue opt with_scheme (parameter kvs) include_subdomains
           = table_queue opt scheme_defaulted (supplied_text kvs) include_subdomains"
  using assms with_scheme_words
  by (simp add: table_queue_def required_params_def parameter_strip)

text \<open>
  C4, as the code has it. For a selector from 1 to 8 and a dict of parameters that
  supplies every required parameter as text, the list that \<open>analyze\<close> builds has the
  entries of the table's row in the table's order, where each text parameter is first
  stripped of surrounding whitespace and \<open>domain_url\<close> and \<open>url\<close> are prefixed with
  \<open>https://\<close> unless they begin with \<open>http://\<close> or \<open>https://\<close> in lower case; it is
  this list that \<open>analyze\<close> passes to \<open>run_analysis\<close>. When the texts are supplied
  without surrounding whitespace and give no scheme other than those two, the list is
  the row of the table read by its words. For selector 1 and \<open>example.com\<close> the list is
  \<open>https://example.com\<close> followed by \<open>n\<close> when the flag is absent or false, and by \<open>s\<close>
  when it is true.
\<close>

theorem answer_queue_matches_table:
  assumes "1 \<le> opt" and "opt \<le> 8"
    and "\<forall>k\<in>set (required_params opt). supplied kvs k"
  shows "analyze_input_responses opt (JObj kvs)
           = Queue (table_queue opt with_scheme (parameter kvs) (flag kvs ''include_subdomains''))
       \<and> analyze hst (Inr (opt, JObj kvs)) p
           = analyze_response
               (run_analysis hst opt
                  (table_queue opt with_scheme (parameter kvs) (flag kvs ''include_subdomains''))
                  600 p)
       \<and> ((\<forall>k\<in>set (required_params opt). strip (supplied_text kvs k) = supplied_text kvs k)
            \<and> http_or_no_scheme (supplied_text kvs ''domain_url'')
            \<and> http_or_no_scheme (supplied_text kvs ''url'') \<longrightarrow>
            analyze_input_responses opt (JObj kvs)
              = Queue (table_queue opt scheme_defaulted (supplied_text kvs)
                         (flag kvs ''include_subdomains'')))
       \<and> analyze_input_responses 1 (JObj [(''domain_url'', JStr ''example.com'')])
           = Queue [''https://example.com'', ''n'']
       \<and> analyze_input_responses 1
            (JObj [(''domain_url'', JStr ''example.com''), (''include_subdomains'', JBool False)])
           = Queue [''https://example.com'', ''n'']
       \<and> analyze_input_responses 1
            (JObj [(''domain_url'', JStr ''example.com''), (''include_subdomains'', JBool True)])
           = Queue [''https://example.com'', ''s'']"
proof -
  have examples:
    "analyze_input_responses 1 (JObj [(''domain_url'', JStr ''example.com'')])
       = Queue [''https://example.com'', ''n'']"
    "analyze_input_responses 1
       (JObj [(''domain_url'', JStr ''example.com''), (''include_subdomains'', JBool False)])
       = Queue [''https://example.com'', ''n'']"
    "analyze_input_responses 1
       (JObj [(''domain_url'', JStr ''example.com''), (''include_subdomains'', JBool True)])
       = Queue [''https://example.com'', ''s'']"
    by (simp_all add: analyze_input_responses_def get_stripped_def dict_get_def strip_def
          isspace_def with_scheme_def startswith_def)
  have q: "analyze_input_responses opt (JObj kvs)
           = Queue (table_queue opt with_scheme (parameter kvs) (flag kvs ''include_subdomains''))"
    using assms by (rule queue_built)
  have w: "(\<forall>k\<in>set (required_params opt). strip (supplied_text kvs k) = supplied_text kvs k)
            \<and> http_or_no_scheme (supplied_text kvs ''domain_url'')
            \<and> http_or_no_scheme (supplied_text kvs ''url'') \<longrightarrow>
            analyze_input_responses opt (JObj kvs)
              = Queue (table_queue opt scheme_defaulted (supplied_text kvs)
                         (flag kvs ''include_subdomains''))"
    using q table_queue_words [of opt kvs "flag kvs ''include_subdomains''"] by simp
  from q w examples show ?thesis by (simp add: analyze_on_queue)
qed

theorem answer_queue_matches_table_witness:
  "analyze_input_responses 6
     (JObj [(''domain_url'', JStr '' http://example.org ''), (''include_subdomains'', JBool True)])
     = Queue [''http://example.org'', ''s'']
   \<and> analyze_input_responses 5
     (JObj [(''theme'', JStr ''seo''), (''domain_url'', JStr ''example.org'')])
     = Queue [''https://example.org'', ''seo'']
   \<and> table_queue 5 scheme_defaulted
        (supplied_text [(''theme'', JStr ''seo''), (''domain_url'', JStr ''example.org'')]) False
     = [''https://example.org'', ''seo'']"
  using answer_queue_matches_table
          [of 6 "[(''domain_url'', JStr '' http://example.org ''),
                  (''include_subdomains'', JBool True)]"
              "host_of Return" console]
        answer_queue_matches_table
          [of 5 "[(''theme'', JStr ''seo''), (''domain_url'', JStr ''example.org'')]"
              "host_of Return" console]
  by (simp add: required_params_def supplied_def parameter_def flag_def table_queue_def
        with_scheme_def scheme_defaulted_def scheme_given_def isalpha_ascii_def scheme_char_def
        http_or_no_scheme_def supplied_text_def startswith_def strip_def isspace_def)

text \<open>
  C4 as stated fails: for selector 3 and a url that gives the scheme \<open>ftp\<close>, the row of
  the table leaves the url as it is, a scheme being given, and \<open>analyze\<close> builds the
  list with \<open>https://\<close> put in front of it.
\<close>

theorem answer_queue_other_scheme:
  "analyze_input_responses 3 (JObj [(''url'', JStr ''ftp://example.com'')])
     = Queue [''https://ftp://example.com'']
   \<and> table_queue 3 scheme_defaulted (supplied_text [(''url'', JStr ''ftp://example.com'')]) False
     = [''ftp://example.com'']"
  by (simp add: analyze_input_responses_def get_stripped_def dict_get_def strip_def isspace_def
        with_scheme_def startswith_def table_queue_def scheme_defaulted_def scheme_given_def
        isalpha_ascii_def scheme_char_def supplied_text_def)

end
